theory Spec2Isabelle
  imports Complex_Main
begin

section \<open>Monitoring service of the cluster-center backend\<close>

text \<open>
  The development embeds \<^verbatim>\<open>services/monitoringService.js\<close> (class
  \<^verbatim>\<open>MonitoringService\<close>) together with the Mongoose schemas it reads and writes
  (\<^verbatim>\<open>VMMetrics\<close>, \<^verbatim>\<open>SystemAlert\<close>, \<^verbatim>\<open>PerformanceMetrics\<close>) and
  \<^verbatim>\<open>MonitoringController.resolveAlert\<close>.

  Conventions.
  \<^item> JavaScript numbers are modelled by \<^typ>\<open>real\<close>: every finite double is a real, and
    none of the modelled arithmetic produces NaN or an infinity from finite operands.
  \<^item> A point in time is the number of milliseconds since the epoch (\<^typ>\<open>int\<close>), the
    value of \<^verbatim>\<open>Date.now()\<close>. One call of a service operation reads one clock value.
  \<^item> The identifier of a stored document (an ObjectId) is opaque, modelled by
    \<^typ>\<open>nat\<close>. The alert identifier handed to \<^verbatim>\<open>resolveAlert\<close> is the route parameter
    as it was received, which may or may not cast to an ObjectId.
  \<^item> The persistence layer (Mongoose over MongoDB) is modelled by lists of documents
    shaped by the schemas, with the validators, setters and defaults the schemas declare.
  \<^item> \<^verbatim>\<open>Math.random()\<close> is a stream of draws \<open>r 0, r 1, \<dots>\<close>, consumed in
    evaluation order.
\<close>

subsection \<open>Values\<close>

type_synonym objectId = nat
type_synonym millis = int

datatype vmStatus = Creating | Running | Stopped | Stopping | Starting | Error | Suspended

datatype severity = Critical | Warning | Info

text \<open>A value given where the identifier of a document is expected, such as the route
  parameter \<^verbatim>\<open>req.params.alertId\<close>: either it casts to an ObjectId, or it is a string that
  does not.\<close>

datatype idValue = ObjectId objectId | NotObjectId string

text \<open>A \<^verbatim>\<open>Date\<close> object: a time value, or the Invalid Date made by \<^verbatim>\<open>new Date(NaN)\<close>.\<close>

datatype jsdate = JSDate millis | InvalidDate

text \<open>Schemaless values: the \<^verbatim>\<open>Mixed\<close> sub-documents and the rows of an aggregation.\<close>

datatype jsval =
    JUndefined
  | JNull
  | JBool bool
  | JNum real
  | JStr string
  | JTime millis
  | JObj "(string \<times> jsval) list"

text \<open>Property read \<^verbatim>\<open>o.k\<close> on an object: \<^verbatim>\<open>undefined\<close> when the key is absent.\<close>

definition jsget :: "(string \<times> jsval) list \<Rightarrow> string \<Rightarrow> jsval" where
  "jsget obj k = (case map_of obj k of None \<Rightarrow> JUndefined | Some v \<Rightarrow> v)"

text \<open>The idiom \<^verbatim>\<open>x || 0\<close> on a value that is a number, \<^verbatim>\<open>null\<close> or
  \<^verbatim>\<open>undefined\<close>: every falsy value becomes 0.\<close>

fun orZero :: "jsval \<Rightarrow> real" where
  "orZero (JNum x) = x"
| "orZero _ = 0"

text \<open>A template literal with one number formatted by \<^verbatim>\<open>toFixed\<close>: the text before the
  number, the number, the digit count and the text after it, kept unevaluated.\<close>

datatype message = Template string real nat string

subsection \<open>Sample generator\<close>

record vm =
  vm_id :: objectId
  vm_status :: vmStatus
  vm_createdAt :: millis

text \<open>The object literal returned by \<^verbatim>\<open>generateVMMetrics\<close>.\<close>

record metrics =
  cpuUsage :: real
  memoryUsage :: real
  diskUsage :: real
  networkIn :: int
  networkOut :: int
  diskRead :: int
  diskWrite :: int
  uptime :: int
  status :: vmStatus
  responseTime :: int
  errorRate :: real

text \<open>
  \<^verbatim>\<open>generateVMMetrics(vm)\<close>. \<open>now\<close> is \<^verbatim>\<open>Date.now()\<close>, \<open>hours\<close> is
  \<^verbatim>\<open>new Date().getHours()\<close>, and \<open>r 0 \<dots> r 9\<close> are the ten calls of
  \<^verbatim>\<open>Math.random()\<close> in the order the function makes them. \<^verbatim>\<open>Math.floor\<close> of a
  quotient of integers is \<open>div\<close>.
\<close>

definition generateVMMetrics :: "millis \<Rightarrow> nat \<Rightarrow> (nat \<Rightarrow> real) \<Rightarrow> vm \<Rightarrow> metrics" where
  "generateVMMetrics now hours r v =
     (let baseLoad = r 0 * 50;
          timeOfDay = hours;
          isBusinessHours = (timeOfDay \<ge> 9 \<and> timeOfDay \<le> 17);
          loadMultiplier = (if isBusinessHours then 1.5 else 0.8 :: real)
      in \<lparr> cpuUsage = min 100 (baseLoad * loadMultiplier + (r 1 * 20 - 10)),
           memoryUsage = min 100 ((baseLoad * 0.8) * loadMultiplier + (r 2 * 15 - 7.5)),
           diskUsage = min 100 (30 + r 3 * 40),
           networkIn = \<lfloor>r 4 * 1000 + 100\<rfloor>,
           networkOut = \<lfloor>r 5 * 500 + 50\<rfloor>,
           diskRead = \<lfloor>r 6 * 100 + 10\<rfloor>,
           diskWrite = \<lfloor>r 7 * 50 + 5\<rfloor>,
           uptime = now div 1000 - vm_createdAt v div 1000,
           status = vm_status v,
           responseTime = \<lfloor>r 8 * 50 + 10\<rfloor>,
           errorRate = r 9 * 0.05 \<rparr>)"

subsection \<open>Threshold evaluator\<close>

text \<open>An element of the local array \<^verbatim>\<open>alerts\<close> of \<^verbatim>\<open>checkForAlerts\<close>.\<close>

record alertData =
  a_type :: string
  a_severity :: severity
  a_message :: message
  a_value :: real

text \<open>The four \<^verbatim>\<open>if\<close> statements of \<^verbatim>\<open>checkForAlerts\<close>, each pushing at most one
  element; the array is their concatenation in source order.\<close>

definition cpuAlerts :: "metrics \<Rightarrow> alertData list" where
  "cpuAlerts m =
     (if cpuUsage m > 90 then
        [\<lparr> a_type = ''cpu_high'', a_severity = Critical,
           a_message = Template ''High CPU usage: '' (cpuUsage m) 1 ''%'',
           a_value = cpuUsage m \<rparr>]
      else if cpuUsage m > 75 then
        [\<lparr> a_type = ''cpu_high'', a_severity = Warning,
           a_message = Template ''Elevated CPU usage: '' (cpuUsage m) 1 ''%'',
           a_value = cpuUsage m \<rparr>]
      else [])"

definition memoryAlerts :: "metrics \<Rightarrow> alertData list" where
  "memoryAlerts m =
     (if memoryUsage m > 95 then
        [\<lparr> a_type = ''memory_high'', a_severity = Critical,
           a_message = Template ''Critical memory usage: '' (memoryUsage m) 1 ''%'',
           a_value = memoryUsage m \<rparr>]
      else if memoryUsage m > 85 then
        [\<lparr> a_type = ''memory_high'', a_severity = Warning,
           a_message = Template ''High memory usage: '' (memoryUsage m) 1 ''%'',
           a_value = memoryUsage m \<rparr>]
      else [])"

definition diskAlerts :: "metrics \<Rightarrow> alertData list" where
  "diskAlerts m =
     (if diskUsage m > 95 then
        [\<lparr> a_type = ''disk_full'', a_severity = Critical,
           a_message = Template ''Disk almost full: '' (diskUsage m) 1 ''%'',
           a_value = diskUsage m \<rparr>]
      else [])"

definition errorRateAlerts :: "metrics \<Rightarrow> alertData list" where
  "errorRateAlerts m =
     (if errorRate m > 0.02 then
        [\<lparr> a_type = ''error_rate_high'', a_severity = Warning,
           a_message = Template ''High error rate: '' (errorRate m * 100) 2 ''%'',
           a_value = errorRate m \<rparr>]
      else [])"

definition checkForAlerts_alerts :: "metrics \<Rightarrow> alertData list" where
  "checkForAlerts_alerts m = cpuAlerts m @ memoryAlerts m @ diskAlerts m @ errorRateAlerts m"

text \<open>The events of one type in an evaluation.\<close>

definition eventsOfType :: "string \<Rightarrow> metrics \<Rightarrow> alertData list" where
  "eventsOfType t m = filter (\<lambda>a. a_type a = t) (checkForAlerts_alerts m)"

subsection \<open>Logging and the environment of a call\<close>

datatype logLevel = L1Critical | L2Warning | L3Info

text \<open>A call of \<^verbatim>\<open>Logger.logL1Critical\<close>, \<^verbatim>\<open>logL2Warning\<close> or \<^verbatim>\<open>logL3Info\<close>:
  level, message and the identifier given in the context object, if any (\<open>Log\<close>, and
  \<open>LogFor\<close> when the identifier is one as it was received). A call of
  \<^verbatim>\<open>Logger.logPerformance(operation, duration)\<close>: level, operation and duration.\<close>

datatype logEntry =
    Log logLevel string "objectId option"
  | LogFor logLevel string idValue
  | LogPerformance logLevel string int

text \<open>Errors thrown by the persistence layer: a value that cannot be cast to the type of
  its path, a document that violates a validator of its schema, and a failed round trip to
  the database.\<close>

datatype error = CastError string | ValidationError string | StoreFailure

text \<open>\<^verbatim>\<open>await\<close> of a call that may throw, inside a \<^verbatim>\<open>try\<close>: the error leaves the
  body, a result goes on to the rest of it.\<close>

definition await :: "error + 'a \<Rightarrow> ('a \<Rightarrow> error + 'b) \<Rightarrow> error + 'b" where
  "await r k = (case r of Inl err \<Rightarrow> Inl err | Inr x \<Rightarrow> k x)"

text \<open>The persistence calls the service makes. Whether a call fails for reasons outside the
  program (connection lost, timeout) is an input of the model, \<open>fails\<close>.\<close>

datatype dbOp =
    VMFind
  | VMCount
  | VMMetricsSave objectId
  | VMMetricsFind
  | VMMetricsAggregate
  | AlertFindOne objectId
  | AlertSave objectId
  | AlertUpdate objectId
  | PerfSave
  | PerfFind

record env =
  now :: millis
  hours :: nat
  rnd :: "nat \<Rightarrow> real"
  fails :: "dbOp \<Rightarrow> bool"

subsection \<open>Documents\<close>

text \<open>\<^verbatim>\<open>String.prototype.trim\<close>, the setter of the paths declared \<^verbatim>\<open>trim: true\<close>
  (ASCII white space).\<close>

definition isSpace :: "char \<Rightarrow> bool" where
  "isSpace c = (c \<in> set [CHR '' '', CHR 0x09, CHR 0x0A, CHR 0x0B, CHR 0x0C, CHR 0x0D])"

definition trim :: "string \<Rightarrow> string" where
  "trim s = rev (dropWhile isSpace (rev (dropWhile isSpace s)))"

text \<open>\<^verbatim>\<open>vmMetricsSchema\<close>. A path without a default is absent (\<open>None\<close>) unless set.\<close>

record vmMetricsDoc =
  vmm_vmId :: objectId
  vmm_timestamp :: millis
  vmm_cpuUsage :: "real option"
  vmm_memoryUsage :: "real option"
  vmm_memoryUsedMB :: "real option"
  vmm_diskUsage :: "real option"
  vmm_diskUsedMB :: "real option"
  vmm_networkInMbps :: "real option"
  vmm_networkOutMbps :: "real option"
  vmm_status :: "vmStatus option"
  vmm_additionalMetrics :: jsval

text \<open>\<^verbatim>\<open>systemAlertSchema\<close>, with the \<^verbatim>\<open>createdAt\<close> and \<^verbatim>\<open>updatedAt\<close> of
  \<^verbatim>\<open>timestamps: true\<close>.\<close>

record systemAlert =
  sa_id :: objectId
  sa_vmId :: "objectId option"
  sa_type :: "string option"
  sa_severity :: "severity option"
  sa_level :: severity
  sa_title :: string
  sa_message :: message
  sa_currentValue :: "real option"
  sa_count :: nat
  sa_resolved :: bool
  sa_resolvedAt :: "millis option"
  sa_resolvedBy :: "string option"
  sa_lastSeen :: millis
  sa_acknowledged :: bool
  sa_acknowledgedBy :: "string option"
  sa_acknowledgedAt :: "millis option"
  sa_metadata :: jsval
  sa_createdAt :: millis
  sa_updatedAt :: millis

text \<open>\<^verbatim>\<open>performanceMetricsSchema\<close>.\<close>

record perfDoc =
  pm_timestamp :: millis
  pm_operation :: string
  pm_durationMs :: real
  pm_success :: bool
  pm_errorMessage :: "string option"
  pm_metadata :: jsval

text \<open>The database: one list of documents per model, in insertion order, and the next
  fresh identifier.\<close>

record db =
  VM :: "vm list"
  VMMetrics :: "vmMetricsDoc list"
  SystemAlert :: "systemAlert list"
  PerformanceMetrics :: "perfDoc list"
  nextId :: objectId

text \<open>What an operation of the service acts on: the database and the log written so far.\<close>

record world =
  store :: db
  logs :: "logEntry list"

definition logLine :: "logLevel \<Rightarrow> string \<Rightarrow> objectId option \<Rightarrow> world \<Rightarrow> world" where
  "logLine l msg ctx w = w\<lparr>logs := logs w @ [Log l msg ctx]\<rparr>"

definition logFor :: "logLevel \<Rightarrow> string \<Rightarrow> idValue \<Rightarrow> world \<Rightarrow> world" where
  "logFor l msg ident w = w\<lparr>logs := logs w @ [LogFor l msg ident]\<rparr>"

text \<open>\<^verbatim>\<open>Logger.logPerformance\<close>: the level is \<^verbatim>\<open>warn\<close> above 5000 ms and
  \<^verbatim>\<open>info\<close> otherwise.\<close>

definition logPerformance :: "string \<Rightarrow> int \<Rightarrow> world \<Rightarrow> world" where
  "logPerformance operation duration w =
     w\<lparr>logs := logs w @
        [LogPerformance (if duration > 5000 then L2Warning else L3Info) operation duration]\<rparr>"

subsection \<open>Persisting a reading\<close>

text \<open>\<^verbatim>\<open>new VMMetrics({ vmId, ...metrics, timestamp: new Date() })\<close>. The schema is strict:
  of the spread reading only \<^verbatim>\<open>cpuUsage\<close>, \<^verbatim>\<open>memoryUsage\<close>, \<^verbatim>\<open>diskUsage\<close> and
  \<^verbatim>\<open>status\<close> are paths of the schema, the other keys are dropped.\<close>

definition newVMMetrics :: "millis \<Rightarrow> objectId \<Rightarrow> metrics \<Rightarrow> vmMetricsDoc" where
  "newVMMetrics t vmId m =
     \<lparr> vmm_vmId = vmId, vmm_timestamp = t,
       vmm_cpuUsage = Some (cpuUsage m), vmm_memoryUsage = Some (memoryUsage m),
       vmm_memoryUsedMB = None,
       vmm_diskUsage = Some (diskUsage m), vmm_diskUsedMB = None,
       vmm_networkInMbps = None, vmm_networkOutMbps = None,
       vmm_status = Some (status m), vmm_additionalMetrics = JObj [] \<rparr>"

text \<open>The validators \<^verbatim>\<open>min: 0, max: 100\<close>; an absent value passes.\<close>

definition percentOk :: "real option \<Rightarrow> bool" where
  "percentOk x = (case x of None \<Rightarrow> True | Some v \<Rightarrow> 0 \<le> v \<and> v \<le> 100)"

definition validateVMMetrics :: "vmMetricsDoc \<Rightarrow> bool" where
  "validateVMMetrics d =
     (percentOk (vmm_cpuUsage d) \<and> percentOk (vmm_memoryUsage d) \<and> percentOk (vmm_diskUsage d))"



subsection \<open>Alert store\<close>

text \<open>The filter of \<^verbatim>\<open>createAlert\<close>:
  \<^verbatim>\<open>{ vmId, type: alertData.type, resolved: false, createdAt: { $gte: now - 5 * 60 * 1000 } }\<close>.
  A document whose \<^verbatim>\<open>type\<close> is absent does not match an equality on \<^verbatim>\<open>type\<close>. The
  string of the filter goes through the setter of the path.\<close>

definition similarAlert :: "millis \<Rightarrow> objectId \<Rightarrow> string \<Rightarrow> systemAlert \<Rightarrow> bool" where
  "similarAlert t vmId ty a =
     (sa_vmId a = Some vmId \<and> sa_type a = Some (trim ty) \<and> sa_resolved a = False
      \<and> sa_createdAt a \<ge> t - 5 * 60 * 1000)"

text \<open>\<^verbatim>\<open>SystemAlert.findOne(filter)\<close>: the first match, or \<^verbatim>\<open>null\<close>.\<close>

definition SystemAlert_findOne ::
  "env \<Rightarrow> db \<Rightarrow> objectId \<Rightarrow> string \<Rightarrow> error + systemAlert option" where
  "SystemAlert_findOne e d vmId ty =
     (if fails e (AlertFindOne vmId) then Inl StoreFailure
      else Inr (find (similarAlert (now e) vmId ty) (SystemAlert d)))"

text \<open>The required paths: \<^verbatim>\<open>level\<close> (of the enumeration by its type), \<^verbatim>\<open>title\<close> and
  \<^verbatim>\<open>message\<close>; a required string must not be empty.\<close>

definition validateSystemAlert :: "systemAlert \<Rightarrow> bool" where
  "validateSystemAlert a = (sa_title a \<noteq> [])"

text \<open>\<^verbatim>\<open>doc.save()\<close> on an alert: validation, then an insert when the identifier is new and
  a replacement of the stored document otherwise; \<^verbatim>\<open>updatedAt\<close> is refreshed.\<close>

definition SystemAlert_save :: "env \<Rightarrow> db \<Rightarrow> objectId \<Rightarrow> systemAlert \<Rightarrow> error + db" where
  "SystemAlert_save e d vmId a =
     (if \<not> validateSystemAlert a then Inl (ValidationError ''SystemAlert'')
      else if fails e (AlertSave vmId) then Inl StoreFailure
      else let a' = a\<lparr>sa_updatedAt := now e\<rparr> in
        if sa_id a \<in> set (map sa_id (SystemAlert d))
        then Inr (d\<lparr>SystemAlert := map (\<lambda>x. if sa_id x = sa_id a then a' else x) (SystemAlert d)\<rparr>)
        else Inr (d\<lparr>SystemAlert := SystemAlert d @ [a'], nextId := Suc (nextId d)\<rparr>))"

text \<open>\<^verbatim>\<open>new SystemAlert({ vmId, level, title, message, metadata })\<close> with the defaults of
  the schema. The constructor call of \<^verbatim>\<open>createAlert\<close> gives no \<^verbatim>\<open>type\<close>, \<^verbatim>\<open>severity\<close>,
  \<^verbatim>\<open>currentValue\<close>, \<^verbatim>\<open>count\<close>, \<^verbatim>\<open>resolved\<close> or \<^verbatim>\<open>lastSeen\<close> at the top level: the
  last four are keys of \<^verbatim>\<open>metadata\<close>.\<close>

definition newSystemAlert :: "millis \<Rightarrow> objectId \<Rightarrow> objectId \<Rightarrow> alertData \<Rightarrow> systemAlert" where
  "newSystemAlert t ident vmId ad =
     \<lparr> sa_id = ident, sa_vmId = Some vmId, sa_type = None, sa_severity = None,
       sa_level = a_severity ad, sa_title = trim (a_type ad), sa_message = a_message ad,
       sa_currentValue = None, sa_count = 1, sa_resolved = False,
       sa_resolvedAt = None, sa_resolvedBy = None, sa_lastSeen = t,
       sa_acknowledged = False, sa_acknowledgedBy = None, sa_acknowledgedAt = None,
       sa_metadata = JObj [(''currentValue'', JNum (a_value ad)), (''count'', JNum 1),
                           (''resolved'', JBool False), (''lastSeen'', JTime t)],
       sa_createdAt = t, sa_updatedAt = t \<rparr>"

text \<open>The body of the \<^verbatim>\<open>try\<close> of \<^verbatim>\<open>createAlert\<close>.\<close>

definition createAlert_try :: "env \<Rightarrow> world \<Rightarrow> objectId \<Rightarrow> alertData \<Rightarrow> error + world" where
  "createAlert_try e w vmId ad =
     await (SystemAlert_findOne e (store w) vmId (a_type ad)) (\<lambda>found.
       case found of
         Some existingAlert \<Rightarrow>
           (let updated = existingAlert
                  \<lparr> sa_count := (if sa_count existingAlert = 0 then 1 else sa_count existingAlert) + 1,
                    sa_lastSeen := now e,
                    sa_currentValue := Some (a_value ad) \<rparr>
            in await (SystemAlert_save e (store w) vmId updated) (\<lambda>d. Inr (w\<lparr>store := d\<rparr>)))
       | None \<Rightarrow>
           await (SystemAlert_save e (store w) vmId
                    (newSystemAlert (now e) (nextId (store w)) vmId ad))
             (\<lambda>d. Inr (logLine L2Warning ''System alert created'' (Some vmId) (w\<lparr>store := d\<rparr>))))"

text \<open>\<^verbatim>\<open>createAlert(vmId, alertData)\<close>: the \<^verbatim>\<open>catch\<close> logs and returns.\<close>

definition createAlert :: "env \<Rightarrow> world \<Rightarrow> objectId \<Rightarrow> alertData \<Rightarrow> world" where
  "createAlert e w vmId ad =
     (case createAlert_try e w vmId ad of
        Inr w' \<Rightarrow> w'
      | Inl err \<Rightarrow> logLine L1Critical ''Failed to create alert'' (Some vmId) w)"


subsection \<open>Aggregation\<close>

text \<open>The numeric paths of a stored point, as \<^verbatim>\<open>'$path'\<close> reads them in a pipeline. A
  path that is not in the schema (\<^verbatim>\<open>networkIn\<close>, \<^verbatim>\<open>networkOut\<close>, \<^verbatim>\<open>responseTime\<close>,
  \<^verbatim>\<open>errorRate\<close>) is missing in every stored document.\<close>

definition vmm_path :: "string \<Rightarrow> vmMetricsDoc \<Rightarrow> real option" where
  "vmm_path p d =
     (if p = ''cpuUsage'' then vmm_cpuUsage d
      else if p = ''memoryUsage'' then vmm_memoryUsage d
      else if p = ''memoryUsedMB'' then vmm_memoryUsedMB d
      else if p = ''diskUsage'' then vmm_diskUsage d
      else if p = ''diskUsedMB'' then vmm_diskUsedMB d
      else if p = ''networkInMbps'' then vmm_networkInMbps d
      else if p = ''networkOutMbps'' then vmm_networkOutMbps d
      else None)"

text \<open>The accumulators of \<^verbatim>\<open>$group\<close> the service uses: \<^verbatim>\<open>{ $avg: '$p' }\<close>,
  \<^verbatim>\<open>{ $max: '$p' }\<close>, \<^verbatim>\<open>{ $sum: '$p' }\<close> and \<^verbatim>\<open>{ $sum: 1 }\<close>. Missing values are
  skipped; \<^verbatim>\<open>$avg\<close> and \<^verbatim>\<open>$max\<close> of nothing are \<^verbatim>\<open>null\<close>, \<^verbatim>\<open>$sum\<close> of nothing
  is 0.\<close>

datatype accumulator = Avg string | Max string | Sum string | SumOne

definition present :: "string \<Rightarrow> vmMetricsDoc list \<Rightarrow> real list" where
  "present p ds = concat (map (\<lambda>d. case vmm_path p d of None \<Rightarrow> [] | Some x \<Rightarrow> [x]) ds)"

fun accumulate :: "accumulator \<Rightarrow> vmMetricsDoc list \<Rightarrow> jsval" where
  "accumulate (Avg p) ds =
     (let xs = present p ds in if xs = [] then JNull else JNum (sum_list xs / real (length xs)))"
| "accumulate (Max p) ds =
     (let xs = present p ds in if xs = [] then JNull else JNum (fold max (tl xs) (hd xs)))"
| "accumulate (Sum p) ds = JNum (sum_list (present p ds))"
| "accumulate SumOne ds = JNum (real (length ds))"

text \<open>\<^verbatim>\<open>{ $group: { _id: null, ... } }\<close>: one row for a non-empty input, no row for an
  empty one.\<close>

definition groupAll ::
  "(string \<times> accumulator) list \<Rightarrow> vmMetricsDoc list \<Rightarrow> (string \<times> jsval) list list" where
  "groupAll spec ds =
     (if ds = [] then [] else [(''_id'', JNull) # map (\<lambda>(k, acc). (k, accumulate acc ds)) spec])"

text \<open>How a \<^verbatim>\<open>Date\<close> reaches the database. A filter of \<^verbatim>\<open>find\<close> is cast against the
  schema, and the cast of an Invalid Date throws. The stages of \<^verbatim>\<open>aggregate\<close> are not cast:
  the date is encoded as it is, by the 64-bit integer made from \<^verbatim>\<open>getTime()\<close>, which is 0
  for the NaN of an Invalid Date.\<close>

fun castDate :: "string \<Rightarrow> jsdate \<Rightarrow> error + millis" where
  "castDate path (JSDate t) = Inr t"
| "castDate path InvalidDate = Inl (CastError path)"

fun bsonDate :: "jsdate \<Rightarrow> millis" where
  "bsonDate (JSDate t) = t"
| "bsonDate InvalidDate = 0"

text \<open>\<^verbatim>\<open>VMMetrics.aggregate([{ $match: { timestamp: { $gte: since } } }, { $group: ... }])\<close>.\<close>

definition VMMetrics_aggregate ::
  "env \<Rightarrow> db \<Rightarrow> jsdate \<Rightarrow> (string \<times> accumulator) list \<Rightarrow> error + (string \<times> jsval) list list" where
  "VMMetrics_aggregate e d since spec =
     (if fails e VMMetricsAggregate then Inl StoreFailure
      else Inr (groupAll spec (filter (\<lambda>p. vmm_timestamp p \<ge> bsonDate since) (VMMetrics d))))"

text \<open>\<^verbatim>\<open>rows[0]?.key\<close> and \<^verbatim>\<open>rows[0] || {}\<close>.\<close>

definition firstRowGet :: "(string \<times> jsval) list list \<Rightarrow> string \<Rightarrow> jsval" where
  "firstRowGet rows k = (case rows of [] \<Rightarrow> JUndefined | row # _ \<Rightarrow> jsget row k)"

definition firstRowOrEmpty :: "(string \<times> jsval) list list \<Rightarrow> (string \<times> jsval) list" where
  "firstRowOrEmpty rows = (case rows of [] \<Rightarrow> [] | row # _ \<Rightarrow> row)"

subsection \<open>System-wide snapshot\<close>

text \<open>\<^verbatim>\<open>VM.countDocuments(filter)\<close>, the filter being a test on the status.\<close>

definition VM_countDocuments :: "env \<Rightarrow> db \<Rightarrow> (vmStatus \<Rightarrow> bool) \<Rightarrow> error + nat" where
  "VM_countDocuments e d P =
     (if fails e VMCount then Inl StoreFailure
      else Inr (length (filter (\<lambda>v. P (vm_status v)) (VM d))))"

definition recentSpec :: "(string \<times> accumulator) list" where
  "recentSpec =
     [(''avgCpuUsage'', Avg ''cpuUsage''), (''avgMemoryUsage'', Avg ''memoryUsage''),
      (''totalNetworkIn'', Sum ''networkIn''), (''totalNetworkOut'', Sum ''networkOut''),
      (''avgResponseTime'', Avg ''responseTime''), (''totalErrorRate'', Avg ''errorRate'')]"

text \<open>The object literal \<^verbatim>\<open>systemMetrics\<close>.\<close>

definition systemMetricsObj ::
  "millis \<Rightarrow> nat \<Rightarrow> nat \<Rightarrow> nat \<Rightarrow> nat \<Rightarrow> (string \<times> jsval) list list \<Rightarrow> (string \<times> jsval) list" where
  "systemMetricsObj t totalVMs runningVMs stoppedVMs errorVMs recentMetrics =
     [(''totalVMs'', JNum (real totalVMs)),
      (''runningVMs'', JNum (real runningVMs)),
      (''stoppedVMs'', JNum (real stoppedVMs)),
      (''errorVMs'', JNum (real errorVMs)),
      (''systemLoad'', JNum (orZero (firstRowGet recentMetrics ''avgCpuUsage''))),
      (''memoryUtilization'', JNum (orZero (firstRowGet recentMetrics ''avgMemoryUsage''))),
      (''networkThroughput'', JObj
         [(''in'', JNum (orZero (firstRowGet recentMetrics ''totalNetworkIn''))),
          (''out'', JNum (orZero (firstRowGet recentMetrics ''totalNetworkOut'')))]),
      (''averageResponseTime'', JNum (orZero (firstRowGet recentMetrics ''avgResponseTime''))),
      (''systemErrorRate'', JNum (orZero (firstRowGet recentMetrics ''totalErrorRate''))),
      (''timestamp'', JTime t)]"

text \<open>\<^verbatim>\<open>new PerformanceMetrics({ operation, durationMs, success, metadata, timestamp })\<close> of
  \<^verbatim>\<open>collectSystemMetrics\<close>. The marker \<^verbatim>\<open>category: 'system'\<close> is a key of
  \<^verbatim>\<open>metadata\<close>. The duration is \<^verbatim>\<open>Date.now() - (timestamp - 1000)\<close>.\<close>

definition systemPerfDoc :: "millis \<Rightarrow> (string \<times> jsval) list \<Rightarrow> perfDoc" where
  "systemPerfDoc t systemMetrics =
     \<lparr> pm_timestamp = t, pm_operation = trim ''system_metrics_collection'',
       pm_durationMs = real_of_int (t - (t - 1000)), pm_success = True,
       pm_errorMessage = None,
       pm_metadata = JObj [(''category'', JStr ''system''), (''metrics'', JObj systemMetrics)] \<rparr>"

text \<open>\<^verbatim>\<open>perfMetrics.save()\<close>: \<^verbatim>\<open>operation\<close> is required.\<close>

definition PerformanceMetrics_save :: "env \<Rightarrow> db \<Rightarrow> perfDoc \<Rightarrow> error + db" where
  "PerformanceMetrics_save e d doc =
     (if pm_operation doc = [] then Inl (ValidationError ''PerformanceMetrics'')
      else if fails e PerfSave then Inl StoreFailure
      else Inr (d\<lparr>PerformanceMetrics := PerformanceMetrics d @ [doc]\<rparr>))"

text \<open>The body of the \<^verbatim>\<open>try\<close> of \<^verbatim>\<open>collectSystemMetrics\<close>: four counts, the aggregate
  over the last five minutes, the snapshot and its save.\<close>

definition collectSystemMetrics_try ::
  "env \<Rightarrow> world \<Rightarrow> error + ((string \<times> jsval) list \<times> world)" where
  "collectSystemMetrics_try e w =
     await (VM_countDocuments e (store w) (\<lambda>s. True)) (\<lambda>totalVMs.
     await (VM_countDocuments e (store w) (\<lambda>s. s = Running)) (\<lambda>runningVMs.
     await (VM_countDocuments e (store w) (\<lambda>s. s = Stopped)) (\<lambda>stoppedVMs.
     await (VM_countDocuments e (store w) (\<lambda>s. s = Error)) (\<lambda>errorVMs.
     await (VMMetrics_aggregate e (store w) (JSDate (now e - 5 * 60 * 1000)) recentSpec)
       (\<lambda>recentMetrics.
     let systemMetrics =
           systemMetricsObj (now e) totalVMs runningVMs stoppedVMs errorVMs recentMetrics
     in await (PerformanceMetrics_save e (store w) (systemPerfDoc (now e) systemMetrics))
          (\<lambda>d. Inr (systemMetrics, w\<lparr>store := d\<rparr>)))))))"

text \<open>\<^verbatim>\<open>collectSystemMetrics()\<close>: the \<^verbatim>\<open>catch\<close> logs and throws the error again.\<close>

definition collectSystemMetrics ::
  "env \<Rightarrow> world \<Rightarrow> (error + (string \<times> jsval) list) \<times> world" where
  "collectSystemMetrics e w =
     (case collectSystemMetrics_try e w of
        Inr (systemMetrics, w') \<Rightarrow> (Inr systemMetrics, w')
      | Inl err \<Rightarrow> (Inl err, logLine L1Critical ''Failed to collect system metrics'' None w))"

subsection \<open>Collection cycle\<close>






subsection \<open>Queries\<close>

text \<open>The object literal \<^verbatim>\<open>timeRanges\<close> and the read \<^verbatim>\<open>timeRanges[timeRange]\<close>, which
  is \<^verbatim>\<open>undefined\<close> (here \<open>None\<close>) for a key the literal does not have.\<close>

definition timeRanges :: "string \<Rightarrow> int option" where
  "timeRanges =
     map_of [(''1h'', 60 * 60 * 1000), (''24h'', 24 * 60 * 60 * 1000),
             (''7d'', 7 * 24 * 60 * 60 * 1000), (''30d'', 30 * 24 * 60 * 60 * 1000)]"

text \<open>\<^verbatim>\<open>new Date(Date.now() - timeRanges[timeRange])\<close>: a number minus \<^verbatim>\<open>undefined\<close>
  is NaN, and the date made from NaN is the Invalid Date.\<close>

definition since :: "millis \<Rightarrow> string \<Rightarrow> jsdate" where
  "since t timeRange =
     (case timeRanges timeRange of None \<Rightarrow> InvalidDate | Some width \<Rightarrow> JSDate (t - width))"

text \<open>\<^verbatim>\<open>VMMetrics.find({ vmId, timestamp: { $gte: since } }).sort({ timestamp: 1 })\<close>.\<close>

definition VMMetrics_find :: "env \<Rightarrow> db \<Rightarrow> objectId \<Rightarrow> jsdate \<Rightarrow> error + vmMetricsDoc list" where
  "VMMetrics_find e d vmId s =
     await (castDate ''timestamp'' s) (\<lambda>t.
       if fails e VMMetricsFind then Inl StoreFailure
       else Inr (sort_key vmm_timestamp
                   (filter (\<lambda>p. vmm_vmId p = vmId \<and> vmm_timestamp p \<ge> t) (VMMetrics d))))"

text \<open>\<^verbatim>\<open>getVMMetrics(vmId, timeRange)\<close>: the \<^verbatim>\<open>catch\<close> logs and throws again.\<close>

definition getVMMetrics ::
  "env \<Rightarrow> world \<Rightarrow> objectId \<Rightarrow> string \<Rightarrow> (error + vmMetricsDoc list) \<times> world" where
  "getVMMetrics e w vmId timeRange =
     (case VMMetrics_find e (store w) vmId (since (now e) timeRange) of
        Inr ms \<Rightarrow> (Inr ms, w)
      | Inl err \<Rightarrow> (Inl err, logLine L1Critical ''Failed to get VM metrics'' (Some vmId) w))"

text \<open>A top-level path of a stored \<^verbatim>\<open>PerformanceMetrics\<close> document, as a filter reads it:
  the six paths of the schema, and \<^verbatim>\<open>undefined\<close> for any other name.\<close>

definition pm_path :: "string \<Rightarrow> perfDoc \<Rightarrow> jsval" where
  "pm_path p d =
     (if p = ''timestamp'' then JTime (pm_timestamp d)
      else if p = ''operation'' then JStr (pm_operation d)
      else if p = ''durationMs'' then JNum (pm_durationMs d)
      else if p = ''success'' then JBool (pm_success d)
      else if p = ''errorMessage'' then
        (case pm_errorMessage d of None \<Rightarrow> JUndefined | Some msg \<Rightarrow> JStr msg)
      else if p = ''metadata'' then pm_metadata d
      else JUndefined)"

text \<open>\<^verbatim>\<open>PerformanceMetrics.find({ category: 'system', timestamp: { $gte: since } })
  .sort({ timestamp: 1 })\<close>, the filter applied as it is written.\<close>

definition PerformanceMetrics_find :: "env \<Rightarrow> db \<Rightarrow> jsdate \<Rightarrow> error + perfDoc list" where
  "PerformanceMetrics_find e d s =
     await (castDate ''timestamp'' s) (\<lambda>t.
       if fails e PerfFind then Inl StoreFailure
       else Inr (sort_key pm_timestamp
                   (filter (\<lambda>p. pm_path ''category'' p = JStr ''system'' \<and> pm_timestamp p \<ge> t)
                      (PerformanceMetrics d))))"

definition getSystemMetrics :: "env \<Rightarrow> world \<Rightarrow> string \<Rightarrow> (error + perfDoc list) \<times> world" where
  "getSystemMetrics e w timeRange =
     (case PerformanceMetrics_find e (store w) (since (now e) timeRange) of
        Inr ms \<Rightarrow> (Inr ms, w)
      | Inl err \<Rightarrow> (Inl err, logLine L1Critical ''Failed to get system metrics'' None w))"

definition summarySpec :: "(string \<times> accumulator) list" where
  "summarySpec =
     [(''avgCpuUsage'', Avg ''cpuUsage''), (''maxCpuUsage'', Max ''cpuUsage''),
      (''avgMemoryUsage'', Avg ''memoryUsage''), (''maxMemoryUsage'', Max ''memoryUsage''),
      (''avgDiskUsage'', Avg ''diskUsage''), (''maxDiskUsage'', Max ''diskUsage''),
      (''totalNetworkIn'', Sum ''networkIn''), (''totalNetworkOut'', Sum ''networkOut''),
      (''avgResponseTime'', Avg ''responseTime''), (''maxResponseTime'', Max ''responseTime''),
      (''avgErrorRate'', Avg ''errorRate''), (''maxErrorRate'', Max ''errorRate''),
      (''dataPoints'', SumOne)]"

text \<open>\<^verbatim>\<open>getPerformanceSummary(timeRange)\<close>: \<^verbatim>\<open>return summary[0] || {}\<close>.\<close>

definition getPerformanceSummary ::
  "env \<Rightarrow> world \<Rightarrow> string \<Rightarrow> (error + (string \<times> jsval) list) \<times> world" where
  "getPerformanceSummary e w timeRange =
     (case VMMetrics_aggregate e (store w) (since (now e) timeRange) summarySpec of
        Inr summary \<Rightarrow> (Inr (firstRowOrEmpty summary), w)
      | Inl err \<Rightarrow> (Inl err, logLine L1Critical ''Failed to get performance summary'' None w))"

subsection \<open>Resolution\<close>

fun updateFirst :: "('a \<Rightarrow> bool) \<Rightarrow> ('a \<Rightarrow> 'a) \<Rightarrow> 'a list \<Rightarrow> 'a list" where
  "updateFirst P f [] = []"
| "updateFirst P f (x # xs) = (if P x then f x # xs else x # updateFirst P f xs)"

text \<open>The cast of an identifier to the type of the path \<^verbatim>\<open>_id\<close>, which the persistence
  layer applies to the filter before it calls the database.\<close>

fun castObjectId :: "string \<Rightarrow> idValue \<Rightarrow> error + objectId" where
  "castObjectId path (ObjectId i) = Inr i"
| "castObjectId path (NotObjectId s) = Inl (CastError path)"

text \<open>\<^verbatim>\<open>SystemAlert.findByIdAndUpdate(id, update, { new: true })\<close>: the identifier is
  cast; the document with that identifier, whatever its other fields, is updated and returned
  as updated; \<^verbatim>\<open>null\<close> and no write when there is none.\<close>

definition SystemAlert_findByIdAndUpdate ::
  "env \<Rightarrow> db \<Rightarrow> idValue \<Rightarrow> (systemAlert \<Rightarrow> systemAlert) \<Rightarrow> error + (systemAlert option \<times> db)" where
  "SystemAlert_findByIdAndUpdate e d ident upd =
     await (castObjectId ''_id'' ident) (\<lambda>alertId.
       if fails e (AlertUpdate alertId) then Inl StoreFailure
       else case find (\<lambda>a. sa_id a = alertId) (SystemAlert d) of
              None \<Rightarrow> Inr (None, d)
            | Some a \<Rightarrow>
                Inr (Some ((upd a)\<lparr>sa_updatedAt := now e\<rparr>),
                     d\<lparr>SystemAlert :=
                         updateFirst (\<lambda>x. sa_id x = alertId) (\<lambda>x. (upd x)\<lparr>sa_updatedAt := now e\<rparr>)
                           (SystemAlert d)\<rparr>))"

text \<open>The update document \<^verbatim>\<open>{ resolved: true, resolvedAt: new Date(), resolvedBy }\<close>.\<close>

definition resolution :: "millis \<Rightarrow> string \<Rightarrow> systemAlert \<Rightarrow> systemAlert" where
  "resolution t resolvedBy a =
     a\<lparr>sa_resolved := True, sa_resolvedAt := Some t, sa_resolvedBy := Some (trim resolvedBy)\<rparr>"

text \<open>\<^verbatim>\<open>resolveAlert(alertId, resolvedBy)\<close>: the result is the updated alert or
  \<^verbatim>\<open>null\<close>; the \<^verbatim>\<open>catch\<close> logs and throws again.\<close>

definition resolveAlert ::
  "env \<Rightarrow> world \<Rightarrow> idValue \<Rightarrow> string \<Rightarrow> (error + systemAlert option) \<times> world" where
  "resolveAlert e w alertId resolvedBy =
     (case SystemAlert_findByIdAndUpdate e (store w) alertId (resolution (now e) resolvedBy) of
        Inr (alert, d) \<Rightarrow>
          (Inr alert,
           (if alert \<noteq> None then logFor L3Info ''Alert resolved'' alertId (w\<lparr>store := d\<rparr>)
            else w\<lparr>store := d\<rparr>))
      | Inl err \<Rightarrow> (Inl err, logFor L1Critical ''Failed to resolve alert'' alertId w))"

text \<open>What \<^verbatim>\<open>MonitoringController.resolveAlert\<close> reads of the request:
  \<^verbatim>\<open>req.params.alertId\<close>, \<^verbatim>\<open>req.user?.id\<close> (absent when there is no user), and whether
  \<^verbatim>\<open>req.app.get('io')\<close> is a socket server. The application of this repository
  (\<^verbatim>\<open>server.js\<close>) registers no setting \<^verbatim>\<open>io\<close>.\<close>

record request =
  param_alertId :: idValue
  user_id :: "string option"
  app_io :: bool

text \<open>The status of the response, with the alert in the body of a success.\<close>

datatype response = Ok200 systemAlert | NotFound404 | Failed500

text \<open>\<^verbatim>\<open>MonitoringController.resolveAlert(req, res)\<close>: the response, the alerts emitted as
  \<^verbatim>\<open>alert:resolved\<close>, and the state after it. The resolver is
  \<^verbatim>\<open>req.user?.id || 'system'\<close>. A \<^verbatim>\<open>null\<close> from the service is answered 404 at once.
  Otherwise the duration is logged and \<^verbatim>\<open>req.app.get('io').emit(...)\<close> is evaluated, which
  throws when the setting is absent. The \<^verbatim>\<open>catch\<close> logs what the service or the emission has
  thrown and answers 500.\<close>

definition controller_resolveAlert ::
  "env \<Rightarrow> world \<Rightarrow> request \<Rightarrow> response \<times> systemAlert list \<times> world" where
  "controller_resolveAlert e w req =
     (let alertId = param_alertId req;
          resolvedBy = (case user_id req of
                          None \<Rightarrow> ''system''
                        | Some u \<Rightarrow> if u = [] then ''system'' else u);
          w0 = logFor L3Info ''Resolving alert'' alertId w
      in case resolveAlert e w0 alertId resolvedBy of
           (Inl err, w1) \<Rightarrow> (Failed500, [], logFor L1Critical ''Failed to resolve alert'' alertId w1)
         | (Inr None, w1) \<Rightarrow> (NotFound404, [], w1)
         | (Inr (Some alert), w1) \<Rightarrow>
             (let w2 = logPerformance ''resolveAlert'' (now e - now e) w1
              in if app_io req then (Ok200 alert, [alert], w2)
                 else (Failed500, [], logFor L1Critical ''Failed to resolve alert'' alertId w2)))"

subsection \<open>Scheduler\<close>

text \<open>The fields \<^verbatim>\<open>isRunning\<close> and \<^verbatim>\<open>metricsInterval\<close> of the service, the interval
  timers of the process that are live (\<open>timers\<close>, by handle), the next fresh handle and the
  log.\<close>

record scheduler =
  isRunning :: bool
  metricsInterval :: "nat option"
  timers :: "nat list"
  nextTimer :: nat
  slogs :: "logEntry list"

text \<open>The constructor.\<close>

definition newService :: scheduler where
  "newService = \<lparr> isRunning = False, metricsInterval = None, timers = [], nextTimer = 0, slogs = [] \<rparr>"

text \<open>\<^verbatim>\<open>setInterval(callback, 30000)\<close> registers a timer and returns its handle;
  \<^verbatim>\<open>clearInterval(handle)\<close> removes it.\<close>

definition setInterval :: "scheduler \<Rightarrow> nat \<times> scheduler" where
  "setInterval s = (nextTimer s, s\<lparr>timers := timers s @ [nextTimer s], nextTimer := Suc (nextTimer s)\<rparr>)"

definition clearInterval :: "nat \<Rightarrow> scheduler \<Rightarrow> scheduler" where
  "clearInterval h s = s\<lparr>timers := filter (\<lambda>x. x \<noteq> h) (timers s)\<rparr>"

definition slog :: "logLevel \<Rightarrow> string \<Rightarrow> scheduler \<Rightarrow> scheduler" where
  "slog l msg s = s\<lparr>slogs := slogs s @ [Log l msg None]\<rparr>"

definition startMonitoring :: "scheduler \<Rightarrow> scheduler" where
  "startMonitoring s =
     (if isRunning s then slog L2Warning ''Monitoring already running'' s
      else let s1 = slog L3Info ''Starting monitoring service'' (s\<lparr>isRunning := True\<rparr>);
               (h, s2) = setInterval s1
           in s2\<lparr>metricsInterval := Some h\<rparr>)"

definition stopMonitoring :: "scheduler \<Rightarrow> scheduler" where
  "stopMonitoring s =
     (if \<not> isRunning s then s
      else let s1 = s\<lparr>isRunning := False\<rparr>;
               s2 = (case metricsInterval s1 of
                       Some h \<Rightarrow> (clearInterval h s1)\<lparr>metricsInterval := None\<rparr>
                     | None \<Rightarrow> s1)
           in slog L3Info ''Monitoring service stopped'' s2)"

text \<open>Any sequence of calls of the two operations on a fresh service.\<close>

datatype call = Start | Stop

fun callsFrom :: "scheduler \<Rightarrow> call list \<Rightarrow> scheduler" where
  "callsFrom s [] = s"
| "callsFrom s (Start # cs) = callsFrom (startMonitoring s) cs"
| "callsFrom s (Stop # cs) = callsFrom (stopMonitoring s) cs"

subsection \<open>Sample inputs\<close>

text \<open>An environment at noon in which every draw is 0 and no persistence call fails, the
  same half a minute later, an empty database, and a reading with a given CPU percentage
  whose other values are below every threshold. Then a database holding a single point, 29
  days old, and the one left by a system-wide snapshot.\<close>

definition env0 :: env where
  "env0 = \<lparr> now = 1700000000000, hours = 12, rnd = (\<lambda>k. 0), fails = (\<lambda>call. False) \<rparr>"

definition env1 :: env where
  "env1 = env0\<lparr>now := 1700000030000\<rparr>"

definition world0 :: world where
  "world0 = \<lparr> store = \<lparr> VM = [], VMMetrics = [], SystemAlert = [], PerformanceMetrics = [],
                        nextId = 0 \<rparr>,
              logs = [] \<rparr>"

definition reading :: "real \<Rightarrow> metrics" where
  "reading c =
     \<lparr> cpuUsage = c, memoryUsage = 40, diskUsage = 50, networkIn = 100, networkOut = 50,
       diskRead = 10, diskWrite = 5, uptime = 60, status = Running, responseTime = 10,
       errorRate = 0 \<rparr>"

definition readingMem :: "real \<Rightarrow> metrics" where
  "readingMem x = (reading 10)\<lparr>memoryUsage := x\<rparr>"

definition cpuHigh :: alertData where
  "cpuHigh = hd (checkForAlerts_alerts (reading 95))"

definition vm1 :: vm where
  "vm1 = \<lparr> vm_id = 1, vm_status = Running, vm_createdAt = 0 \<rparr>"

definition world1 :: world where
  "world1 = world0\<lparr>store := (store world0)
              \<lparr>VMMetrics := [newVMMetrics (1700000000000 - 29 * 24 * 60 * 60 * 1000) 1 (reading 50)]\<rparr>\<rparr>"

definition worldS :: world where
  "worldS = snd (collectSystemMetrics env0 world0)"

definition alertA :: systemAlert where
  "alertA = newSystemAlert 1700000000000 0 1 cpuHigh"

definition alertR :: systemAlert where
  "alertR = alertA\<lparr>sa_resolved := True, sa_resolvedAt := Some 1700000000000,
                    sa_resolvedBy := Some ''alice''\<rparr>"

text \<open>The database after one alert was raised, and after that alert was resolved.\<close>

definition worldA :: world where
  "worldA = createAlert env0 world0 1 cpuHigh"

definition worldR :: world where
  "worldR = snd (resolveAlert env0 worldA (ObjectId 0) ''alice'')"




subsection \<open>Predicates of the statements\<close>

text \<open>The scheduler's flag, handle and live timers agree: a handle is held exactly when the
  service runs, and then it is the one live timer.\<close>

definition consistent :: "scheduler \<Rightarrow> bool" where
  "consistent s =
     (case metricsInterval s of
        Some h \<Rightarrow> isRunning s \<and> timers s = [h]
      | None \<Rightarrow> \<not> isRunning s \<and> timers s = [])"




section \<open>Properties\<close>

lemma filter_cpuAlerts:
  "filter (\<lambda>a. a_type a = t) (cpuAlerts m) = (if t = ''cpu_high'' then cpuAlerts m else [])"
  by (auto simp: cpuAlerts_def)

lemma filter_memoryAlerts:
  "filter (\<lambda>a. a_type a = t) (memoryAlerts m) = (if t = ''memory_high'' then memoryAlerts m else [])"
  by (auto simp: memoryAlerts_def)

lemma filter_diskAlerts:
  "filter (\<lambda>a. a_type a = t) (diskAlerts m) = (if t = ''disk_full'' then diskAlerts m else [])"
  by (auto simp: diskAlerts_def)

lemma filter_errorRateAlerts:
  "filter (\<lambda>a. a_type a = t) (errorRateAlerts m) =
     (if t = ''error_rate_high'' then errorRateAlerts m else [])"
  by (auto simp: errorRateAlerts_def)

lemmas filter_alerts =
  filter_cpuAlerts filter_memoryAlerts filter_diskAlerts filter_errorRateAlerts

lemma eventsOfType_cpu: "eventsOfType ''cpu_high'' m = cpuAlerts m"
  by (simp add: eventsOfType_def checkForAlerts_alerts_def filter_alerts)

lemma eventsOfType_memory: "eventsOfType ''memory_high'' m = memoryAlerts m"
  by (simp add: eventsOfType_def checkForAlerts_alerts_def filter_alerts)

lemma length_cpuAlerts: "length (cpuAlerts m) \<le> 1"
  by (simp add: cpuAlerts_def)

lemma length_memoryAlerts: "length (memoryAlerts m) \<le> 1"
  by (simp add: memoryAlerts_def)

lemma length_diskAlerts: "length (diskAlerts m) \<le> 1"
  by (simp add: diskAlerts_def)

lemma length_errorRateAlerts: "length (errorRateAlerts m) \<le> 1"
  by (simp add: errorRateAlerts_def)

lemma eventsOfType_le_1: "length (eventsOfType t m) \<le> 1"
  using length_cpuAlerts [of m] length_memoryAlerts [of m] length_diskAlerts [of m]
    length_errorRateAlerts [of m]
  by (simp add: eventsOfType_def checkForAlerts_alerts_def filter_alerts)

text \<open>
  C2. For every reading, the evaluator yields exactly one \<^verbatim>\<open>cpu_high\<close> event, at severity
  critical, when the CPU percentage is above 90; exactly one, at severity warning, when it is
  above 75 and at most 90; and none when it is at most 75. The bands of a metric are mutually
  exclusive: an evaluation holds at most one event of any type, and for the memory
  percentage, the other metric with two bands, it is the critical one above 95 and the
  warning one above 85 and at most 95.
\<close>

theorem checkForAlerts_cpu_bands:
  "(cpuUsage m > 90 \<longrightarrow>
      (\<exists>a. eventsOfType ''cpu_high'' m = [a] \<and> a_severity a = Critical \<and> a_value a = cpuUsage m))
   \<and> (75 < cpuUsage m \<and> cpuUsage m \<le> 90 \<longrightarrow>
      (\<exists>a. eventsOfType ''cpu_high'' m = [a] \<and> a_severity a = Warning \<and> a_value a = cpuUsage m))
   \<and> (cpuUsage m \<le> 75 \<longrightarrow> eventsOfType ''cpu_high'' m = [])
   \<and> (\<forall>t. length (eventsOfType t m) \<le> 1)
   \<and> (memoryUsage m > 95 \<longrightarrow>
      (\<exists>a. eventsOfType ''memory_high'' m = [a] \<and> a_severity a = Critical))
   \<and> (85 < memoryUsage m \<and> memoryUsage m \<le> 95 \<longrightarrow>
      (\<exists>a. eventsOfType ''memory_high'' m = [a] \<and> a_severity a = Warning))"
proof -
  have bands: "length (eventsOfType t m) \<le> 1" for t
    by (rule eventsOfType_le_1)
  show ?thesis
    using bands by (simp add: eventsOfType_cpu eventsOfType_memory cpuAlerts_def memoryAlerts_def)
qed

theorem checkForAlerts_cpu_bands_witness:
  "(90 < cpuUsage (reading 95)
      \<and> (\<exists>a. eventsOfType ''cpu_high'' (reading 95) = [a] \<and> a_severity a = Critical \<and> a_value a = 95))
   \<and> (75 < cpuUsage (reading 80) \<and> cpuUsage (reading 80) \<le> 90
      \<and> (\<exists>a. eventsOfType ''cpu_high'' (reading 80) = [a] \<and> a_severity a = Warning \<and> a_value a = 80))
   \<and> (cpuUsage (reading 75) \<le> 75 \<and> eventsOfType ''cpu_high'' (reading 75) = [])
   \<and> (95 < memoryUsage (readingMem 96)
      \<and> (\<exists>a. eventsOfType ''memory_high'' (readingMem 96) = [a] \<and> a_severity a = Critical))
   \<and> (85 < memoryUsage (readingMem 90) \<and> memoryUsage (readingMem 90) \<le> 95
      \<and> (\<exists>a. eventsOfType ''memory_high'' (readingMem 90) = [a] \<and> a_severity a = Warning))"
  using checkForAlerts_cpu_bands [of "reading 95"] checkForAlerts_cpu_bands [of "reading 80"]
    checkForAlerts_cpu_bands [of "reading 75"] checkForAlerts_cpu_bands [of "readingMem 96"]
    checkForAlerts_cpu_bands [of "readingMem 90"]
  by (simp add: reading_def readingMem_def)

lemma cpuHigh_eq:
  "cpuHigh = \<lparr> a_type = ''cpu_high'', a_severity = Critical,
               a_message = Template ''High CPU usage: '' 95 1 ''%'', a_value = 95 \<rparr>"
  by (simp add: cpuHigh_def checkForAlerts_alerts_def cpuAlerts_def reading_def)

lemma trim_cpu_high: "trim ''cpu_high'' = ''cpu_high''"
  by (simp add: trim_def isSpace_def)

text \<open>
  C1. Two evaluations of the same (instance, type) pair within five minutes should leave one
  alert record with count 2. On an empty alert store, \<^verbatim>\<open>createAlert\<close> for instance 1 and
  type \<^verbatim>\<open>cpu_high\<close>, called twice half a minute apart, leaves two records instead, each
  with count 1: the record it writes carries the type in \<^verbatim>\<open>title\<close> and has no \<^verbatim>\<open>type\<close>,
  so the lookup of the second call finds nothing.
\<close>

theorem createAlert_twice_two_records:
  "map (\<lambda>a. (sa_vmId a, sa_type a, sa_title a, sa_count a, sa_resolved a, sa_createdAt a))
     (SystemAlert (store (createAlert env1 (createAlert env0 world0 1 cpuHigh) 1 cpuHigh)))
   = [(Some 1, None, ''cpu_high'', 1, False, 1700000000000),
      (Some 1, None, ''cpu_high'', 1, False, 1700000030000)]"
  by (simp add: createAlert_def createAlert_try_def await_def SystemAlert_findOne_def
      SystemAlert_save_def similarAlert_def validateSystemAlert_def newSystemAlert_def
      logLine_def env0_def env1_def world0_def cpuHigh_eq trim_cpu_high)

text \<open>
  C5. Every reading of the generator should have its percentages in [0, 100]. When the draws
  for the base load and for the jitter are 0, the CPU percentage is -10 and the memory
  percentage is -7.5: the generator bounds the values from above only. The validators of the
  schema (\<^verbatim>\<open>min: 0\<close>) refuse the point made from that reading.
\<close>

theorem generateVMMetrics_negative:
  "cpuUsage (generateVMMetrics (now env0) (hours env0) (rnd env0) vm1) = - 10
   \<and> memoryUsage (generateVMMetrics (now env0) (hours env0) (rnd env0) vm1) = - 7.5
   \<and> \<not> validateVMMetrics
         (newVMMetrics (now env0) (vm_id vm1)
            (generateVMMetrics (now env0) (hours env0) (rnd env0) vm1))"
  by (simp add: generateVMMetrics_def env0_def vm1_def validateVMMetrics_def newVMMetrics_def
      percentOk_def)

subsection \<open>Time ranges\<close>

lemma since_unknown: "tr \<notin> {''1h'', ''24h'', ''7d'', ''30d''} \<Longrightarrow> since t tr = InvalidDate"
  by (simp add: since_def timeRanges_def)

lemma since_known: "timeRanges tr = Some width \<Longrightarrow> since t tr = JSDate (t - width)"
  by (simp add: since_def)

lemma pm_path_category: "pm_path ''category'' d = JUndefined"
  by (simp add: pm_path_def)

lemma PerformanceMetrics_find_known:
  "\<not> fails e PerfFind \<Longrightarrow> PerformanceMetrics_find e d (JSDate t) = Inr []"
  by (simp add: PerformanceMetrics_find_def await_def pm_path_category)

lemma PerformanceMetrics_find_empty:
  "PerformanceMetrics_find e d s = Inr ms \<Longrightarrow> ms = []"
  by (cases s) (auto simp: PerformanceMetrics_find_def await_def pm_path_category split: if_splits)

lemma vmm_timestamp_new: "vmm_timestamp (newVMMetrics t vmId m) = t"
  by (simp add: newVMMetrics_def)

lemma world1_points:
  "VMMetrics (store world1) = [newVMMetrics 1697494400000 1 (reading 50)]"
  by (simp add: world1_def world0_def)

lemma world1_row:
  "groupAll summarySpec [newVMMetrics t vmId (reading 50)] =
     [[(''_id'', JNull), (''avgCpuUsage'', JNum 50), (''maxCpuUsage'', JNum 50),
       (''avgMemoryUsage'', JNum 40), (''maxMemoryUsage'', JNum 40),
       (''avgDiskUsage'', JNum 50), (''maxDiskUsage'', JNum 50),
       (''totalNetworkIn'', JNum 0), (''totalNetworkOut'', JNum 0),
       (''avgResponseTime'', JNull), (''maxResponseTime'', JNull),
       (''avgErrorRate'', JNull), (''maxErrorRate'', JNull), (''dataPoints'', JNum 1)]]"
  by (simp add: groupAll_def summarySpec_def present_def vmm_path_def newVMMetrics_def reading_def)

text \<open>
  C3, as stated: a time range outside \<^verbatim>\<open>1h\<close>, \<^verbatim>\<open>24h\<close>, \<^verbatim>\<open>7d\<close>, \<^verbatim>\<open>30d\<close> should be
  rejected with a validation error by \<^verbatim>\<open>getVMMetrics\<close>, \<^verbatim>\<open>getSystemMetrics\<close> and
  \<^verbatim>\<open>getPerformanceSummary\<close>. For \<^verbatim>\<open>2h\<close>, over a database holding one point that is 29
  days old, \<^verbatim>\<open>getPerformanceSummary\<close> returns a summary of that point and no error.
\<close>

theorem getPerformanceSummary_2h_counterexample:
  "''2h'' \<notin> {''1h'', ''24h'', ''7d'', ''30d''}
   \<and> getPerformanceSummary env0 world1 ''2h'' =
       (Inr [(''_id'', JNull), (''avgCpuUsage'', JNum 50), (''maxCpuUsage'', JNum 50),
             (''avgMemoryUsage'', JNum 40), (''maxMemoryUsage'', JNum 40),
             (''avgDiskUsage'', JNum 50), (''maxDiskUsage'', JNum 50),
             (''totalNetworkIn'', JNum 0), (''totalNetworkOut'', JNum 0),
             (''avgResponseTime'', JNull), (''maxResponseTime'', JNull),
             (''avgErrorRate'', JNull), (''maxErrorRate'', JNull), (''dataPoints'', JNum 1)],
        world1)"
  by (simp add: getPerformanceSummary_def VMMetrics_aggregate_def since_unknown world1_points
      vmm_timestamp_new world1_row firstRowOrEmpty_def env0_def)

text \<open>
  C3, amended. None of the three operations validates the time range. For a keyword outside
  \<^verbatim>\<open>1h\<close>, \<^verbatim>\<open>24h\<close>, \<^verbatim>\<open>7d\<close>, \<^verbatim>\<open>30d\<close> the lower bound is the Invalid Date.
  \<^verbatim>\<open>getVMMetrics\<close> and \<^verbatim>\<open>getSystemMetrics\<close> then fail with the cast error of the
  persistence layer on \<^verbatim>\<open>timestamp\<close>, which they log at critical level and throw again,
  the database unchanged. \<^verbatim>\<open>getPerformanceSummary\<close>, whose pipeline is not cast, does not
  fail: unless the database call itself fails, it returns the summary of all stored points
  from the epoch on (\<^verbatim>\<open>{}\<close> when there are none).
\<close>

theorem unknown_timeRange_not_validated:
  assumes "tr \<notin> {''1h'', ''24h'', ''7d'', ''30d''}"
  shows "since (now e) tr = InvalidDate
   \<and> getVMMetrics e w vmId tr
       = (Inl (CastError ''timestamp''), logLine L1Critical ''Failed to get VM metrics'' (Some vmId) w)
   \<and> getSystemMetrics e w tr
       = (Inl (CastError ''timestamp''), logLine L1Critical ''Failed to get system metrics'' None w)
   \<and> (\<not> fails e VMMetricsAggregate \<longrightarrow>
        getPerformanceSummary e w tr
          = (Inr (firstRowOrEmpty (groupAll summarySpec
                    (filter (\<lambda>p. vmm_timestamp p \<ge> 0) (VMMetrics (store w))))), w))"
  using assms
  by (simp add: since_unknown getVMMetrics_def getSystemMetrics_def getPerformanceSummary_def
      VMMetrics_find_def PerformanceMetrics_find_def VMMetrics_aggregate_def await_def)

theorem unknown_timeRange_not_validated_witness:
  "''2h'' \<notin> {''1h'', ''24h'', ''7d'', ''30d''}
   \<and> \<not> fails env0 VMMetricsAggregate
   \<and> fst (getVMMetrics env0 world1 1 ''2h'') = Inl (CastError ''timestamp'')
   \<and> fst (getSystemMetrics env0 world1 ''2h'') = Inl (CastError ''timestamp'')
   \<and> getPerformanceSummary env0 world1 ''2h''
       = (Inr (firstRowOrEmpty (groupAll summarySpec (VMMetrics (store world1)))), world1)"
  using unknown_timeRange_not_validated [of "''2h''" env0 world1 1]
  by (simp add: env0_def world1_points vmm_timestamp_new)

text \<open>
  C4, as stated: over a state with no metric point in range the aggregation query should
  return a summary whose \<^verbatim>\<open>dataPoints\<close> field is 0. Over the empty database and the range
  \<^verbatim>\<open>1h\<close>, \<^verbatim>\<open>getPerformanceSummary\<close> returns the empty object: its \<^verbatim>\<open>dataPoints\<close> is
  \<^verbatim>\<open>undefined\<close>, not 0. \<^verbatim>\<open>getSystemMetrics\<close> returns the empty list, which is no
  summary and has no such field.
\<close>

theorem getPerformanceSummary_empty_counterexample:
  "timeRanges ''1h'' = Some 3600000
   \<and> VMMetrics (store world0) = []
   \<and> getPerformanceSummary env0 world0 ''1h'' = (Inr [], world0)
   \<and> jsget (projr (fst (getPerformanceSummary env0 world0 ''1h''))) ''dataPoints'' = JUndefined
   \<and> jsget (projr (fst (getPerformanceSummary env0 world0 ''1h''))) ''dataPoints'' \<noteq> JNum 0
   \<and> getSystemMetrics env0 world0 ''1h'' = (Inr [], world0)"
  by (simp add: timeRanges_def getPerformanceSummary_def VMMetrics_aggregate_def since_def
      groupAll_def firstRowOrEmpty_def world0_def env0_def jsget_def getSystemMetrics_def
      PerformanceMetrics_find_def await_def)

text \<open>
  C4, amended. For every valid time range over a state with no metric point in that range (no
  stored reading for \<^verbatim>\<open>getPerformanceSummary\<close>, no stored snapshot for
  \<^verbatim>\<open>getSystemMetrics\<close>), and unless the database call fails, the aggregation query returns
  an empty result and no error: \<^verbatim>\<open>getPerformanceSummary\<close> the empty object \<^verbatim>\<open>{}\<close>,
  whose \<^verbatim>\<open>dataPoints\<close> reads \<^verbatim>\<open>undefined\<close>, and \<^verbatim>\<open>getSystemMetrics\<close> the empty list.
\<close>

theorem empty_range_summary:
  assumes "timeRanges tr = Some width"
    and "\<forall>p \<in> set (VMMetrics (store w)). vmm_timestamp p < now e - width"
    and "\<forall>p \<in> set (PerformanceMetrics (store w)). pm_timestamp p < now e - width"
  shows "(\<not> fails e VMMetricsAggregate \<longrightarrow>
            getPerformanceSummary e w tr = (Inr [], w)
            \<and> jsget (projr (fst (getPerformanceSummary e w tr))) ''dataPoints'' = JUndefined)
         \<and> (\<not> fails e PerfFind \<longrightarrow> getSystemMetrics e w tr = (Inr [], w))"
proof -
  have "filter (\<lambda>p. vmm_timestamp p \<ge> now e - width) (VMMetrics (store w)) = []"
    using assms(2) by (auto simp: filter_empty_conv)
  then have "\<not> fails e VMMetricsAggregate \<Longrightarrow> getPerformanceSummary e w tr = (Inr [], w)"
    using assms(1)
    by (simp add: getPerformanceSummary_def since_known VMMetrics_aggregate_def groupAll_def
        firstRowOrEmpty_def)
  moreover have
    "filter (\<lambda>p. pm_path ''category'' p = JStr ''system'' \<and> pm_timestamp p \<ge> now e - width)
       (PerformanceMetrics (store w)) = []"
    using assms(3) by (auto simp: filter_empty_conv)
  then have "\<not> fails e PerfFind \<Longrightarrow> getSystemMetrics e w tr = (Inr [], w)"
    using assms(1)
    by (simp add: getSystemMetrics_def since_known PerformanceMetrics_find_def await_def)
  ultimately show ?thesis
    by (simp add: jsget_def)
qed

theorem empty_range_summary_witness:
  "timeRanges ''1h'' = Some 3600000
   \<and> map vmm_timestamp (VMMetrics (store world1)) = [1697494400000]
   \<and> 1697494400000 < now env0 - 3600000
   \<and> PerformanceMetrics (store world1) = []
   \<and> \<not> fails env0 VMMetricsAggregate \<and> \<not> fails env0 PerfFind
   \<and> getPerformanceSummary env0 world1 ''1h'' = (Inr [], world1)
   \<and> jsget (projr (fst (getPerformanceSummary env0 world1 ''1h''))) ''dataPoints'' = JUndefined
   \<and> getSystemMetrics env0 world1 ''1h'' = (Inr [], world1)"
proof -
  have range: "timeRanges ''1h'' = Some 3600000"
    by (simp add: timeRanges_def)
  have old: "\<forall>p \<in> set (VMMetrics (store world1)). vmm_timestamp p < now env0 - 3600000"
    by (simp add: world1_points vmm_timestamp_new env0_def)
  have none: "PerformanceMetrics (store world1) = []"
    by (simp add: world1_def world0_def)
  then have older:
    "\<forall>p \<in> set (PerformanceMetrics (store world1)). pm_timestamp p < now env0 - 3600000"
    by simp
  have up: "\<not> fails env0 VMMetricsAggregate" "\<not> fails env0 PerfFind"
    by (simp_all add: env0_def)
  have stamps: "map vmm_timestamp (VMMetrics (store world1)) = [1697494400000]"
    by (simp add: world1_points vmm_timestamp_new)
  have before: "1697494400000 < now env0 - 3600000"
    by (simp add: env0_def)
  show ?thesis
    using empty_range_summary [OF range old older] range stamps before none up
    by (simp add: jsget_def)
qed

text \<open>
  C10. \<^verbatim>\<open>getSystemMetrics\<close> returns the empty list for every state and every valid time
  range (the database call not failing), and never returns anything else: it filters on a
  top-level \<^verbatim>\<open>category\<close>, a path no \<^verbatim>\<open>PerformanceMetrics\<close> document has, while the
  document \<^verbatim>\<open>collectSystemMetrics\<close> appends keeps the marker \<^verbatim>\<open>category: 'system'\<close> inside
  \<^verbatim>\<open>metadata\<close>.
\<close>

theorem getSystemMetrics_always_empty:
  "(timeRanges tr \<noteq> None \<and> \<not> fails e PerfFind \<longrightarrow> getSystemMetrics e w tr = (Inr [], w))
   \<and> (\<forall>ms. fst (getSystemMetrics e w tr) = Inr ms \<longrightarrow> ms = [])
   \<and> (\<forall>d. pm_path ''category'' d \<noteq> JStr ''system'')
   \<and> (\<forall>systemMetrics w'. collectSystemMetrics e w = (Inr systemMetrics, w') \<longrightarrow>
         PerformanceMetrics (store w')
           = PerformanceMetrics (store w) @ [systemPerfDoc (now e) systemMetrics]
         \<and> pm_metadata (systemPerfDoc (now e) systemMetrics)
             = JObj [(''category'', JStr ''system''), (''metrics'', JObj systemMetrics)])"
proof (intro conjI allI impI)
  assume "timeRanges tr \<noteq> None \<and> \<not> fails e PerfFind"
  then obtain width where "timeRanges tr = Some width" and "\<not> fails e PerfFind"
    by auto
  then show "getSystemMetrics e w tr = (Inr [], w)"
    by (simp add: getSystemMetrics_def since_known PerformanceMetrics_find_known)
next
  fix ms
  assume "fst (getSystemMetrics e w tr) = Inr ms"
  then show "ms = []"
    by (auto simp: getSystemMetrics_def split: sum.splits dest: PerformanceMetrics_find_empty)
next
  fix d
  show "pm_path ''category'' d \<noteq> JStr ''system''"
    by (simp add: pm_path_category)
next
  fix systemMetrics w'
  assume "collectSystemMetrics e w = (Inr systemMetrics, w')"
  then show "PerformanceMetrics (store w')
      = PerformanceMetrics (store w) @ [systemPerfDoc (now e) systemMetrics]"
    by (auto simp: collectSystemMetrics_def collectSystemMetrics_try_def await_def Let_def
        PerformanceMetrics_save_def split: sum.splits if_splits prod.splits)
next
  fix systemMetrics
  show "pm_metadata (systemPerfDoc (now e) systemMetrics)
      = JObj [(''category'', JStr ''system''), (''metrics'', JObj systemMetrics)]"
    by (simp add: systemPerfDoc_def)
qed

lemma collect0:
  "collectSystemMetrics env0 world0 =
     (Inr (systemMetricsObj (now env0) 0 0 0 0 []),
      world0\<lparr>store := (store world0)\<lparr>PerformanceMetrics :=
         [systemPerfDoc (now env0) (systemMetricsObj (now env0) 0 0 0 0 [])]\<rparr>\<rparr>)"
  by (simp add: collectSystemMetrics_def collectSystemMetrics_try_def await_def Let_def
      VM_countDocuments_def VMMetrics_aggregate_def groupAll_def PerformanceMetrics_save_def
      env0_def world0_def systemPerfDoc_def trim_def isSpace_def)

theorem getSystemMetrics_always_empty_witness:
  "timeRanges ''1h'' \<noteq> None \<and> \<not> fails env1 PerfFind
   \<and> collectSystemMetrics env0 world0 = (Inr (systemMetricsObj (now env0) 0 0 0 0 []), worldS)
   \<and> PerformanceMetrics (store worldS)
       = [systemPerfDoc (now env0) (systemMetricsObj (now env0) 0 0 0 0 [])]
   \<and> pm_timestamp (systemPerfDoc (now env0) (systemMetricsObj (now env0) 0 0 0 0 []))
       \<ge> now env1 - 3600000
   \<and> getSystemMetrics env1 worldS ''1h'' = (Inr [], worldS)
   \<and> fst (getSystemMetrics env1 worldS ''1h'') = Inr []"
proof -
  have range: "timeRanges ''1h'' \<noteq> None"
    by (simp add: timeRanges_def)
  have up: "\<not> fails env1 PerfFind"
    by (simp add: env1_def env0_def)
  have snap:
    "collectSystemMetrics env0 world0 = (Inr (systemMetricsObj (now env0) 0 0 0 0 []), worldS)"
    by (simp add: worldS_def collect0)
  have recent:
    "pm_timestamp (systemPerfDoc (now env0) (systemMetricsObj (now env0) 0 0 0 0 []))
       \<ge> now env1 - 3600000"
    by (simp add: systemPerfDoc_def env0_def env1_def)
  show ?thesis
    using getSystemMetrics_always_empty [of "''1h''" env1 worldS]
      getSystemMetrics_always_empty [of "''1h''" env0 world0] range up snap recent
    by (simp add: world0_def)
qed

subsection \<open>Resolution\<close>

lemma find_updateFirst:
  "find P xs = Some a \<Longrightarrow> P (f a) \<Longrightarrow> find P (updateFirst P f xs) = Some (f a)"
  by (induction xs) (auto split: if_splits)

lemma map_updateFirst:
  "(\<And>x. g (f x) = g x) \<Longrightarrow> map g (updateFirst P f xs) = map g xs"
  by (induction xs) auto

lemma others_updateFirst:
  "x \<in> set xs \<Longrightarrow> \<not> P x \<Longrightarrow> x \<in> set (updateFirst P f xs)"
  by (induction xs) auto

lemma find_id_None:
  "find (\<lambda>x. sa_id x = alertId) xs = None \<longleftrightarrow> alertId \<notin> sa_id ` set xs"
  by (auto simp: find_None_iff)

lemma resolveAlert_unknown:
  assumes "\<not> fails e (AlertUpdate alertId)"
    and "alertId \<notin> sa_id ` set (SystemAlert (store w))"
  shows "resolveAlert e w (ObjectId alertId) who = (Inr None, w)"
  using assms
  by (simp add: resolveAlert_def SystemAlert_findByIdAndUpdate_def await_def
      find_id_None [symmetric])

lemma resolveAlert_uncastable:
  "resolveAlert e w (NotObjectId s) who =
     (Inl (CastError ''_id''), logFor L1Critical ''Failed to resolve alert'' (NotObjectId s) w)"
  by (simp add: resolveAlert_def SystemAlert_findByIdAndUpdate_def await_def)

lemma resolveAlert_known:
  assumes "\<not> fails e (AlertUpdate alertId)"
    and "find (\<lambda>x. sa_id x = alertId) (SystemAlert (store w)) = Some a"
  shows "resolveAlert e w (ObjectId alertId) who =
     (Inr (Some ((resolution (now e) who a)\<lparr>sa_updatedAt := now e\<rparr>)),
      logFor L3Info ''Alert resolved'' (ObjectId alertId)
        (w\<lparr>store := (store w)\<lparr>SystemAlert :=
            updateFirst (\<lambda>x. sa_id x = alertId)
              (\<lambda>x. (resolution (now e) who x)\<lparr>sa_updatedAt := now e\<rparr>) (SystemAlert (store w))\<rparr>\<rparr>))"
  using assms
  by (simp add: resolveAlert_def SystemAlert_findByIdAndUpdate_def await_def)

lemma store_logFor: "store (logFor l msg ident w) = store w"
  by (simp add: logFor_def)

lemma SystemAlert_logFor: "SystemAlert (store (logFor l msg ident w)) = SystemAlert (store w)"
  by (simp add: logFor_def)

lemma controller_unknown:
  assumes "param_alertId req = ObjectId alertId"
    and "\<not> fails e (AlertUpdate alertId)"
    and "alertId \<notin> sa_id ` set (SystemAlert (store w))"
  shows "controller_resolveAlert e w req
           = (NotFound404, [], logFor L3Info ''Resolving alert'' (ObjectId alertId) w)"
proof -
  have "alertId \<notin> sa_id ` set (SystemAlert
          (store (logFor L3Info ''Resolving alert'' (ObjectId alertId) w)))"
    using assms(3) by (simp add: SystemAlert_logFor)
  from resolveAlert_unknown [OF assms(2) this] show ?thesis
    using assms(1) by (simp add: controller_resolveAlert_def Let_def)
qed

lemma controller_uncastable:
  assumes "param_alertId req = NotObjectId s"
  shows "fst (controller_resolveAlert e w req) = Failed500
    \<and> fst (snd (controller_resolveAlert e w req)) = []
    \<and> store (snd (snd (controller_resolveAlert e w req))) = store w"
  using assms
  by (simp add: controller_resolveAlert_def Let_def resolveAlert_uncastable store_logFor)

lemma resolved_again: "sa_resolved a \<Longrightarrow> a\<lparr>sa_resolved := True\<rparr> = a"
  by (cases a) simp

lemma trim_names: "trim ''alice'' = ''alice''" "trim ''bob'' = ''bob''"
  by (simp_all add: trim_def isSpace_def)

lemma worldA_alerts: "SystemAlert (store worldA) = [alertA]"
  by (simp add: worldA_def alertA_def createAlert_def createAlert_try_def await_def
      SystemAlert_findOne_def SystemAlert_save_def validateSystemAlert_def newSystemAlert_def
      logLine_def env0_def world0_def cpuHigh_eq trim_cpu_high)

lemma alertA_id: "sa_id alertA = 0"
  by (simp add: alertA_def newSystemAlert_def)

lemma worldR_alerts: "SystemAlert (store worldR) = [alertR]"
  by (simp add: worldR_def resolveAlert_def SystemAlert_findByIdAndUpdate_def await_def
      worldA_alerts alertA_id alertR_def resolution_def logFor_def trim_names)
    (simp add: env0_def alertA_def newSystemAlert_def)

text \<open>
  C6, as stated: \<^verbatim>\<open>resolveAlert\<close> on an identifier with no matching alert record should
  signal the not-found condition. The identifier \<^verbatim>\<open>abc\<close> does not cast to an ObjectId and
  is the identifier of no record; for it the service does not return \<^verbatim>\<open>null\<close> but throws the
  cast error, and the controller answers 500, not 404. The database is left as it was.
\<close>

theorem resolveAlert_abc_counterexample:
  "castObjectId ''_id'' (NotObjectId ''abc'') = Inl (CastError ''_id'')
   \<and> fst (resolveAlert env1 worldA (NotObjectId ''abc'') ''bob'') = Inl (CastError ''_id'')
   \<and> fst (resolveAlert env1 worldA (NotObjectId ''abc'') ''bob'') \<noteq> Inr None
   \<and> store (snd (resolveAlert env1 worldA (NotObjectId ''abc'') ''bob'')) = store worldA
   \<and> fst (controller_resolveAlert env1 worldA
            \<lparr> param_alertId = NotObjectId ''abc'', user_id = Some ''bob'', app_io = True \<rparr>)
       = Failed500"
  by (simp add: resolveAlert_uncastable store_logFor controller_resolveAlert_def Let_def)

text \<open>
  C6, amended. On an identifier that casts to an ObjectId and that no alert record has, and
  when the update call does not fail, \<^verbatim>\<open>resolveAlert\<close> returns \<^verbatim>\<open>null\<close>, which the
  controller answers with 404, and writes nothing. On an identifier that does not cast to an
  ObjectId it throws the cast error of the persistence layer, which it logs at critical
  level, and the controller answers 500; nothing is written either. On the identifier of a
  record, and when the update call does not fail, it returns that record with \<^verbatim>\<open>resolved\<close>
  true and \<^verbatim>\<open>resolvedAt\<close>, \<^verbatim>\<open>resolvedBy\<close> stamped, stores it in place of the old one, and
  touches no other record.
\<close>

theorem resolveAlert_by_identifier:
  "(\<not> fails e (AlertUpdate i) \<and> i \<notin> sa_id ` set (SystemAlert (store w)) \<longrightarrow>
       resolveAlert e w (ObjectId i) who = (Inr None, w)
       \<and> (param_alertId req = ObjectId i \<longrightarrow>
             fst (controller_resolveAlert e w req) = NotFound404
             \<and> fst (snd (controller_resolveAlert e w req)) = []
             \<and> store (snd (snd (controller_resolveAlert e w req))) = store w))
   \<and> resolveAlert e w (NotObjectId s) who
        = (Inl (CastError ''_id''), logFor L1Critical ''Failed to resolve alert'' (NotObjectId s) w)
   \<and> store (snd (resolveAlert e w (NotObjectId s) who)) = store w
   \<and> (param_alertId req = NotObjectId s \<longrightarrow>
         fst (controller_resolveAlert e w req) = Failed500
         \<and> fst (snd (controller_resolveAlert e w req)) = []
         \<and> store (snd (snd (controller_resolveAlert e w req))) = store w)
   \<and> (\<not> fails e (AlertUpdate i) \<longrightarrow>
       (\<forall>a. find (\<lambda>x. sa_id x = i) (SystemAlert (store w)) = Some a \<longrightarrow>
         (let a' = a\<lparr>sa_resolved := True, sa_resolvedAt := Some (now e),
                      sa_resolvedBy := Some (trim who), sa_updatedAt := now e\<rparr>;
              w' = snd (resolveAlert e w (ObjectId i) who)
          in fst (resolveAlert e w (ObjectId i) who) = Inr (Some a')
             \<and> find (\<lambda>x. sa_id x = i) (SystemAlert (store w')) = Some a'
             \<and> map sa_id (SystemAlert (store w')) = map sa_id (SystemAlert (store w))
             \<and> (\<forall>x \<in> set (SystemAlert (store w)). sa_id x \<noteq> i \<longrightarrow>
                   x \<in> set (SystemAlert (store w'))))))"
proof (intro conjI allI impI)
  assume h: "\<not> fails e (AlertUpdate i) \<and> i \<notin> sa_id ` set (SystemAlert (store w))"
  then show "resolveAlert e w (ObjectId i) who = (Inr None, w)"
    by (simp add: resolveAlert_unknown)
  assume p: "param_alertId req = ObjectId i"
  have c: "controller_resolveAlert e w req
             = (NotFound404, [], logFor L3Info ''Resolving alert'' (ObjectId i) w)"
    using p h by (simp add: controller_unknown)
  show "fst (controller_resolveAlert e w req) = NotFound404"
    by (simp add: c)
  show "fst (snd (controller_resolveAlert e w req)) = []"
    by (simp add: c)
  show "store (snd (snd (controller_resolveAlert e w req))) = store w"
    by (simp add: c store_logFor)
next
  show "resolveAlert e w (NotObjectId s) who
      = (Inl (CastError ''_id''), logFor L1Critical ''Failed to resolve alert'' (NotObjectId s) w)"
    by (rule resolveAlert_uncastable)
next
  show "store (snd (resolveAlert e w (NotObjectId s) who)) = store w"
    by (simp add: resolveAlert_uncastable store_logFor)
next
  assume p: "param_alertId req = NotObjectId s"
  show "fst (controller_resolveAlert e w req) = Failed500"
    using controller_uncastable [OF p] by simp
  show "fst (snd (controller_resolveAlert e w req)) = []"
    using controller_uncastable [OF p] by simp
  show "store (snd (snd (controller_resolveAlert e w req))) = store w"
    using controller_uncastable [OF p] by simp
next
  fix a
  assume up: "\<not> fails e (AlertUpdate i)"
    and found: "find (\<lambda>x. sa_id x = i) (SystemAlert (store w)) = Some a"
  then have ida: "sa_id a = i"
    by (auto simp: find_Some_iff)
  note r = resolveAlert_known [OF up found, of who]
  show "let a' = a\<lparr>sa_resolved := True, sa_resolvedAt := Some (now e),
                    sa_resolvedBy := Some (trim who), sa_updatedAt := now e\<rparr>;
            w' = snd (resolveAlert e w (ObjectId i) who)
        in fst (resolveAlert e w (ObjectId i) who) = Inr (Some a')
           \<and> find (\<lambda>x. sa_id x = i) (SystemAlert (store w')) = Some a'
           \<and> map sa_id (SystemAlert (store w')) = map sa_id (SystemAlert (store w))
           \<and> (\<forall>x \<in> set (SystemAlert (store w)). sa_id x \<noteq> i \<longrightarrow>
                 x \<in> set (SystemAlert (store w')))"
    using found ida
    by (simp add: r Let_def logFor_def find_updateFirst map_updateFirst others_updateFirst
        resolution_def)
qed

theorem resolveAlert_by_identifier_witness:
  "\<not> fails env1 (AlertUpdate 5) \<and> 5 \<notin> sa_id ` set (SystemAlert (store worldA))
   \<and> resolveAlert env1 worldA (ObjectId 5) ''bob'' = (Inr None, worldA)
   \<and> fst (controller_resolveAlert env1 worldA
            \<lparr> param_alertId = ObjectId 5, user_id = Some ''bob'', app_io = False \<rparr>)
       = NotFound404
   \<and> fst (controller_resolveAlert env1 worldA
            \<lparr> param_alertId = NotObjectId ''abc'', user_id = Some ''bob'', app_io = False \<rparr>)
       = Failed500
   \<and> \<not> fails env1 (AlertUpdate 0)
   \<and> find (\<lambda>x. sa_id x = 0) (SystemAlert (store worldA)) = Some alertA
   \<and> fst (resolveAlert env1 worldA (ObjectId 0) ''bob'')
       = Inr (Some (alertA\<lparr>sa_resolved := True, sa_resolvedAt := Some 1700000030000,
                           sa_resolvedBy := Some ''bob'', sa_updatedAt := 1700000030000\<rparr>))
   \<and> find (\<lambda>x. sa_id x = 0)
        (SystemAlert (store (snd (resolveAlert env1 worldA (ObjectId 0) ''bob''))))
       = Some (alertA\<lparr>sa_resolved := True, sa_resolvedAt := Some 1700000030000,
                       sa_resolvedBy := Some ''bob'', sa_updatedAt := 1700000030000\<rparr>)"
proof -
  have up: "\<not> fails env1 (AlertUpdate 5)" "\<not> fails env1 (AlertUpdate 0)"
    by (simp_all add: env1_def env0_def)
  have absent: "5 \<notin> sa_id ` set (SystemAlert (store worldA))"
    by (simp add: worldA_alerts alertA_id)
  have found: "find (\<lambda>x. sa_id x = 0) (SystemAlert (store worldA)) = Some alertA"
    by (simp add: worldA_alerts alertA_id)
  have t: "now env1 = 1700000030000"
    by (simp add: env1_def env0_def)
  show ?thesis
    using resolveAlert_by_identifier [of env1 5 worldA "''bob''"
        "\<lparr> param_alertId = ObjectId 5, user_id = Some ''bob'', app_io = False \<rparr>" "''abc''"]
      resolveAlert_by_identifier [of env1 0 worldA "''bob''"
        "\<lparr> param_alertId = NotObjectId ''abc'', user_id = Some ''bob'', app_io = False \<rparr>" "''abc''"]
      up absent found
    by (simp add: Let_def t trim_names)
qed

text \<open>
  C9. \<^verbatim>\<open>resolveAlert\<close> does not look at \<^verbatim>\<open>resolved\<close>: on the identifier of a record that
  is resolved already (and the update call not failing) it succeeds again, returning the
  record and not \<^verbatim>\<open>null\<close>, and \<^verbatim>\<open>resolvedAt\<close> and \<^verbatim>\<open>resolvedBy\<close> of the stored record
  are overwritten with the new time and resolver.
\<close>

theorem resolveAlert_again:
  assumes "\<not> fails e (AlertUpdate alertId)"
    and "find (\<lambda>x. sa_id x = alertId) (SystemAlert (store w)) = Some a"
    and "sa_resolved a"
  shows "fst (resolveAlert e w (ObjectId alertId) who)
           = Inr (Some (a\<lparr>sa_resolvedAt := Some (now e), sa_resolvedBy := Some (trim who),
                          sa_updatedAt := now e\<rparr>))
    \<and> find (\<lambda>x. sa_id x = alertId)
        (SystemAlert (store (snd (resolveAlert e w (ObjectId alertId) who))))
           = Some (a\<lparr>sa_resolvedAt := Some (now e), sa_resolvedBy := Some (trim who),
                      sa_updatedAt := now e\<rparr>)"
proof -
  have ida: "sa_id a = alertId"
    using assms(2) by (auto simp: find_Some_iff)
  note r = resolveAlert_known [OF assms(1,2), of who]
  show ?thesis
    using assms(2) ida resolved_again [OF assms(3)]
    by (simp add: r logFor_def find_updateFirst resolution_def)
qed

theorem resolveAlert_again_witness:
  "\<not> fails env1 (AlertUpdate 0)
   \<and> find (\<lambda>x. sa_id x = 0) (SystemAlert (store worldR)) = Some alertR
   \<and> sa_resolved alertR \<and> sa_resolvedAt alertR = Some 1700000000000
   \<and> sa_resolvedBy alertR = Some ''alice''
   \<and> fst (resolveAlert env1 worldR (ObjectId 0) ''bob'')
       = Inr (Some (alertR\<lparr>sa_resolvedAt := Some 1700000030000, sa_resolvedBy := Some ''bob'',
                           sa_updatedAt := 1700000030000\<rparr>))
   \<and> find (\<lambda>x. sa_id x = 0)
        (SystemAlert (store (snd (resolveAlert env1 worldR (ObjectId 0) ''bob''))))
       = Some (alertR\<lparr>sa_resolvedAt := Some 1700000030000, sa_resolvedBy := Some ''bob'',
                       sa_updatedAt := 1700000030000\<rparr>)"
proof -
  have up: "\<not> fails env1 (AlertUpdate 0)"
    by (simp add: env1_def env0_def)
  have found: "find (\<lambda>x. sa_id x = 0) (SystemAlert (store worldR)) = Some alertR"
    by (simp add: worldR_alerts alertR_def alertA_id)
  have res: "sa_resolved alertR"
    by (simp add: alertR_def)
  have t: "now env1 = 1700000030000"
    by (simp add: env1_def env0_def)
  show ?thesis
    using resolveAlert_again [OF up found res, of "''bob''"] up found res
    by (simp add: t trim_names) (simp add: alertR_def)
qed

subsection \<open>Scheduler\<close>

lemma consistent_new: "consistent newService"
  by (simp add: consistent_def newService_def)

lemma consistent_start: "consistent s \<Longrightarrow> consistent (startMonitoring s)"
  by (auto simp: consistent_def startMonitoring_def setInterval_def slog_def split: option.splits)

lemma consistent_stop: "consistent s \<Longrightarrow> consistent (stopMonitoring s)"
  by (auto simp: consistent_def stopMonitoring_def clearInterval_def slog_def Let_def
      split: option.splits)

lemma consistent_calls: "consistent s \<Longrightarrow> consistent (callsFrom s cs)"
  by (induction s cs rule: callsFrom.induct) (simp_all add: consistent_start consistent_stop)

lemma running_one_timer: "consistent s \<Longrightarrow> isRunning s \<Longrightarrow> length (timers s) = 1"
  by (auto simp: consistent_def split: option.splits)

lemma stopped_no_timer:
  "consistent s \<Longrightarrow> \<not> isRunning s \<Longrightarrow> timers s = [] \<and> metricsInterval s = None"
  by (auto simp: consistent_def split: option.splits)

lemma start_running: "isRunning (startMonitoring s)"
  by (simp add: startMonitoring_def setInterval_def slog_def)

lemma stop_stopped: "\<not> isRunning (stopMonitoring s)"
  by (simp add: stopMonitoring_def slog_def clearInterval_def Let_def split: option.splits)

lemma start_noop:
  "isRunning s \<Longrightarrow>
     startMonitoring s = s\<lparr>slogs := slogs s @ [Log L2Warning ''Monitoring already running'' None]\<rparr>"
  by (simp add: startMonitoring_def slog_def)

lemma stop_noop: "\<not> isRunning s \<Longrightarrow> stopMonitoring s = s"
  by (simp add: stopMonitoring_def)

text \<open>
  C7. In every state \<open>s\<close> that calls of \<^verbatim>\<open>startMonitoring\<close> and \<^verbatim>\<open>stopMonitoring\<close> lead a
  fresh service to: \<^verbatim>\<open>startMonitoring\<close> while running changes nothing but the log (the
  warning) and leaves exactly one live timer; two calls of it in a row leave exactly one live
  timer; \<^verbatim>\<open>stopMonitoring\<close> leaves no live timer, no handle and the flag off; it changes
  nothing when the service is stopped already, so a second call in a row changes nothing.
\<close>

theorem scheduler_idempotent:
  "(let s = callsFrom newService cs in
      (isRunning s \<longrightarrow>
         startMonitoring s
           = s\<lparr>slogs := slogs s @ [Log L2Warning ''Monitoring already running'' None]\<rparr>
         \<and> length (timers (startMonitoring s)) = 1)
      \<and> length (timers (startMonitoring (startMonitoring s))) = 1
      \<and> timers (stopMonitoring s) = []
      \<and> metricsInterval (stopMonitoring s) = None
      \<and> \<not> isRunning (stopMonitoring s)
      \<and> (\<not> isRunning s \<longrightarrow> stopMonitoring s = s)
      \<and> stopMonitoring (stopMonitoring s) = stopMonitoring s)"
proof -
  define s where "s = callsFrom newService cs"
  have c: "consistent s"
    unfolding s_def by (rule consistent_calls [OF consistent_new])
  have a: "isRunning s \<Longrightarrow> length (timers (startMonitoring s)) = 1"
    using running_one_timer [OF consistent_start [OF c] start_running] .
  have b: "length (timers (startMonitoring (startMonitoring s))) = 1"
    using running_one_timer [OF consistent_start [OF consistent_start [OF c]] start_running] .
  have d: "timers (stopMonitoring s) = [] \<and> metricsInterval (stopMonitoring s) = None"
    using stopped_no_timer [OF consistent_stop [OF c] stop_stopped] .
  have e: "stopMonitoring (stopMonitoring s) = stopMonitoring s"
    using stop_noop [OF stop_stopped] .
  show ?thesis
    unfolding Let_def s_def [symmetric]
    using a b d e start_noop [of s] stop_noop [of s] stop_stopped [of s] by blast
qed

theorem scheduler_idempotent_witness:
  "isRunning (callsFrom newService [Start])
   \<and> timers (callsFrom newService [Start, Start]) = [0]
   \<and> length (timers (startMonitoring (callsFrom newService [Start]))) = 1
   \<and> \<not> isRunning (callsFrom newService [Start, Stop])
   \<and> timers (callsFrom newService [Start, Stop]) = []
   \<and> stopMonitoring (callsFrom newService [Start, Stop]) = callsFrom newService [Start, Stop]"
  using scheduler_idempotent [of "[Start]"] scheduler_idempotent [of "[Start, Stop]"]
  by (simp add: Let_def newService_def startMonitoring_def setInterval_def slog_def
      stopMonitoring_def clearInterval_def)

subsection \<open>Collection cycle\<close>




















end
